theory Spec2Isabelle
  imports Main "HOL-Library.Finite_Map"
begin

section \<open>Values shared by the models\<close>

text \<open>
  JSON-like Python values. A Python dict keeps insertion order, so an object is an
  association list; \<open>JTime\<close> stands for a \<open>datetime\<close> value.
\<close>

datatype json =
    JNull
  | JBool bool
  | JNum int
  | JStr string
  | JTime int
  | JArr "json list"
  | JObj "(string \<times> json) list"

type_synonym pydict = "(string \<times> json) list"

text \<open>
  A raised Python exception: the names of the classes in the method resolution order of its
  class, and its message. \<open>isinstance(ex, C)\<close> holds when \<open>C\<close> is among them.
\<close>

record exn =
  exn_mro :: "string list"
  exn_msg :: string

definition isinstance :: "exn \<Rightarrow> string \<Rightarrow> bool" where
  "isinstance ex c = (c \<in> set (exn_mro ex))"

definition opt_json :: "string option \<Rightarrow> json" where
  "opt_json v = (case v of None \<Rightarrow> JNull | Some s \<Rightarrow> JStr s)"

definition has_key :: "pydict \<Rightarrow> string \<Rightarrow> bool" where
  "has_key d k = (k \<in> set (map fst d))"

section \<open>backend/execution.py\<close>

datatype ExecutionStatus = RUNNING | SUCCEEDED | FAILED | TIMED_OUT | ABORTED

fun status_name :: "ExecutionStatus \<Rightarrow> string" where
  "status_name RUNNING = ''RUNNING''"
| "status_name SUCCEEDED = ''SUCCEEDED''"
| "status_name FAILED = ''FAILED''"
| "status_name TIMED_OUT = ''TIMED_OUT''"
| "status_name ABORTED = ''ABORTED''"

text \<open>
  Modelled from the spec: the program state type of \<open>asl/eval/program_state.py\<close>, which is
  not among the sources. The spec gives Running, Ended, Stopped and Errored(error, cause);
  \<open>terminated\<close> subscripts the error of \<open>ProgramError\<close> with the keys \<open>error\<close> and
  \<open>cause\<close>, so it is a dict with optional string values.
\<close>

datatype ProgramState =
    ProgramRunning
  | ProgramEnded
  | ProgramStopped int "string option" "string option"
  | ProgramError "(string \<times> string option) list"

record environment =
  program_state :: ProgramState
  inp :: json

text \<open>
  The execution worker: its environment, and whether its thread was started.
\<close>

record worker =
  env :: environment
  started :: bool

record state_machine =
  sm_arn :: string
  sm_name :: string
  sm_definition :: string

record execution =
  name :: string
  role_arn :: string
  exec_arn :: string
  state_machine :: state_machine
  start_date :: int
  input_data :: "pydict option"
  input_details :: json
  trace_header :: "string option"
  exec_status :: "ExecutionStatus option"
  stop_date :: "int option"
  output_str :: "string option"
  output_details :: json
  error :: "string option"
  cause :: "string option"
  exec_worker :: "worker option"

datatype failure =
    InvalidName
  | RuntimeError string
  | RuntimeWarning string
  | AttributeError string
  | KeyError string
  | IndexError string
  | TypeError string
  | ValueError string
  | Raised exn

text \<open>The events sink: the entries that were put, and the lines logged with \<open>LOG.exception\<close>.\<close>

record entry =
  Source :: string
  Resources :: "string list"
  DetailType :: string
  Detail :: string

record world =
  published :: "entry list"
  logged :: "entry list"

text \<open>
  What the model takes from outside: \<open>to_json_str\<close> (not among the sources), the clock,
  and the events client, whose \<open>put_events\<close> either returns or raises.
\<close>

record deps =
  to_json_str :: "json \<Rightarrow> string"
  now :: int
  put_events :: "entry \<Rightarrow> exn option"

definition included_details :: json where
  "included_details = JObj [(''included'', JBool True)]"

definition status_json :: "ExecutionStatus option \<Rightarrow> json" where
  "status_json s = (case s of None \<Rightarrow> JNull | Some st \<Rightarrow> JStr (status_name st))"

definition time_json :: "int option \<Rightarrow> json" where
  "time_json t = (case t of None \<Rightarrow> JNull | Some d \<Rightarrow> JTime d)"

definition init_execution ::
  "string \<Rightarrow> string \<Rightarrow> string \<Rightarrow> state_machine \<Rightarrow> int \<Rightarrow> pydict option \<Rightarrow> string option
     \<Rightarrow> execution" where
  "init_execution n r a sm sd inpd th =
     \<lparr> name = n, role_arn = r, exec_arn = a, state_machine = sm, start_date = sd,
       input_data = inpd, input_details = included_details, trace_header = th,
       exec_status = None, stop_date = None, output_str = None,
       output_details = included_details, error = None, cause = None,
       exec_worker = None \<rparr>"

definition input_json :: "pydict option \<Rightarrow> json" where
  "input_json d = (case d of None \<Rightarrow> JNull | Some kvs \<Rightarrow> JObj kvs)"

definition to_describe_output :: "deps \<Rightarrow> execution \<Rightarrow> pydict" where
  "to_describe_output d e =
     [(''executionArn'', JStr (exec_arn e)),
      (''stateMachineArn'', JStr (sm_arn (state_machine e))),
      (''name'', JStr (name e)),
      (''status'', status_json (exec_status e)),
      (''startDate'', JTime (start_date e)),
      (''stopDate'', time_json (stop_date e)),
      (''input'', JStr (to_json_str d (input_json (input_data e)))),
      (''inputDetails'', input_details e),
      (''traceHeader'', opt_json (trace_header e))]
     @ (if exec_status e = Some SUCCEEDED
        then [(''output'', opt_json (output_str e)), (''outputDetails'', output_details e)]
        else [])
     @ (case error e of None \<Rightarrow> [] | Some er \<Rightarrow> [(''error'', JStr er)])
     @ (case cause e of None \<Rightarrow> [] | Some ca \<Rightarrow> [(''cause'', JStr ca)])"

text \<open>\<open>not self.input_data\<close>: \<open>None\<close> and the empty dict are falsy.\<close>

definition input_falsy :: "pydict option \<Rightarrow> bool" where
  "input_falsy d = (case d of None \<Rightarrow> True | Some kvs \<Rightarrow> kvs = [])"

definition status_change_entry :: "deps \<Rightarrow> execution \<Rightarrow> entry" where
  "status_change_entry d e =
     (let input_value = (if input_falsy (input_data e) then JObj []
                         else JStr (to_json_str d (input_json (input_data e))));
          output_value = output_str e;
          output_details_value = (case output_value of None \<Rightarrow> JNull
                                  | Some _ \<Rightarrow> output_details e)
      in \<lparr> Source = ''aws.states'',
           Resources = [exec_arn e],
           DetailType = ''Step Functions Execution Status Change'',
           Detail = to_json_str d (JObj
             [(''executionArn'', JStr (exec_arn e)),
              (''stateMachineArn'', JStr (sm_arn (state_machine e))),
              (''stateMachineAliasArn'', JNull),
              (''stateMachineVersionArn'', JNull),
              (''name'', JStr (name e)),
              (''status'', status_json (exec_status e)),
              (''startDate'', JTime (start_date e)),
              (''stopDate'', time_json (stop_date e)),
              (''input'', input_value),
              (''inputDetails'', input_details e),
              (''output'', opt_json output_value),
              (''outputDetails'', output_details_value),
              (''error'', opt_json (error e)),
              (''cause'', opt_json (cause e))]) \<rparr>)"

text \<open>
  Every operation returns the exception that left it, if any, with the execution and the
  sink as they are at that moment: what was assigned before a raise stays assigned.
  \<open>except Exception\<close> catches the instances of \<open>Exception\<close> only.
\<close>

definition publish_execution_status_change_event ::
  "deps \<Rightarrow> execution \<Rightarrow> world \<Rightarrow> failure option \<times> execution \<times> world" where
  "publish_execution_status_change_event d e w =
     (let en = status_change_entry d e in
      case put_events d en of
        None \<Rightarrow> (None, e, w\<lparr>published := published w @ [en]\<rparr>)
      | Some ex \<Rightarrow>
          (if isinstance ex ''Exception''
           then (None, e, w\<lparr>logged := logged w @ [en]\<rparr>)
           else (Some (Raised ex), e, w)))"

definition terminated ::
  "deps \<Rightarrow> execution \<Rightarrow> world \<Rightarrow> failure option \<times> execution \<times> world" where
  "terminated d e w =
     (case exec_worker e of
        None \<Rightarrow> (Some (AttributeError ''env''), e, w)
      | Some wk \<Rightarrow>
          (let e1 = e\<lparr>stop_date := Some (now d)\<rparr> in
           case program_state (env wk) of
             ProgramEnded \<Rightarrow>
               publish_execution_status_change_event d
                 (e1\<lparr>exec_status := Some SUCCEEDED,
                     output_str := Some (to_json_str d (inp (env wk)))\<rparr>) w
           | ProgramStopped sd er ca \<Rightarrow>
               publish_execution_status_change_event d (e1\<lparr>exec_status := Some ABORTED\<rparr>) w
           | ProgramError details \<Rightarrow>
               (let e2 = e1\<lparr>exec_status := Some FAILED\<rparr> in
                case map_of details ''error'' of
                  None \<Rightarrow> (Some (KeyError ''error''), e2, w)
                | Some er \<Rightarrow>
                    (case map_of details ''cause'' of
                       None \<Rightarrow> (Some (KeyError ''cause''), e2\<lparr>error := er\<rparr>, w)
                     | Some ca \<Rightarrow>
                         publish_execution_status_change_event d
                           (e2\<lparr>error := er, cause := ca\<rparr>) w))
           | ProgramRunning \<Rightarrow>
               (Some (RuntimeWarning ''unsupported ProgramState''), e1, w)))"

text \<open>
  \<open>start\<close> builds the worker from the execution's own fields; the worker's \<open>start\<close>
  (not among the sources) starts its thread, which is the flag \<open>started\<close> here.
\<close>

definition new_worker :: "execution \<Rightarrow> worker" where
  "new_worker e =
     \<lparr> env = \<lparr> program_state = ProgramRunning, inp = input_json (input_data e) \<rparr>,
       started = False \<rparr>"

definition start ::
  "deps \<Rightarrow> execution \<Rightarrow> world \<Rightarrow> failure option \<times> execution \<times> world" where
  "start d e w =
     (case exec_worker e of
        Some wk \<Rightarrow> (Some InvalidName, e, w)
      | None \<Rightarrow>
          (let e1 = e\<lparr>exec_worker := Some (new_worker e), exec_status := Some RUNNING\<rparr> in
           case publish_execution_status_change_event d e1 w of
             (Some f, e2, w2) \<Rightarrow> (Some f, e2, w2)
           | (None, e2, w2) \<Rightarrow>
               (None, e2\<lparr>exec_worker := map_option (\<lambda>k. k\<lparr>started := True\<rparr>) (exec_worker e2)\<rparr>,
                w2)))"

text \<open>
  Modelled from the spec: the \<open>stop\<close> of the execution worker, whose class is not among the
  sources. The program state is terminal once set and no transition leaves a terminal state,
  so only a running program is stopped: its state becomes Stopped with the given date, error
  and cause. For any other program state the call is an error and changes nothing.
\<close>

definition worker_stop ::
  "worker \<Rightarrow> int \<Rightarrow> string option \<Rightarrow> string option \<Rightarrow> failure option \<times> worker" where
  "worker_stop wk sd ca er =
     (case program_state (env wk) of
        ProgramRunning \<Rightarrow>
          (None, wk\<lparr>env := (env wk)\<lparr>program_state := ProgramStopped sd er ca\<rparr>\<rparr>)
      | _ \<Rightarrow> (Some (RuntimeError ''Cannot stop non running ProgramState.''), wk))"

definition stop ::
  "execution \<Rightarrow> int \<Rightarrow> string option \<Rightarrow> string option \<Rightarrow> failure option \<times> execution" where
  "stop e sd er ca =
     (case exec_worker e of
        None \<Rightarrow> (Some (RuntimeError ''No running executions.''), e)
      | Some wk \<Rightarrow>
          (case worker_stop wk sd ca er of
             (f, wk') \<Rightarrow> (f, e\<lparr>exec_worker := Some wk'\<rparr>)))"

text \<open>
  An execution has an active worker when it has a worker whose program is still running; the
  field \<open>exec_worker\<close> is never reset, so a finished execution keeps its worker.
\<close>

definition active_worker :: "execution \<Rightarrow> bool" where
  "active_worker e =
     (case exec_worker e of
        None \<Rightarrow> False
      | Some wk \<Rightarrow> program_state (env wk) = ProgramRunning)"

subsection \<open>Concrete executions\<close>

text \<open>
  A sink that accepts every entry and one whose \<open>put_events\<close> raises a client error, an
  execution as its constructor leaves it, and executions whose worker has reached a given
  program state.
\<close>

definition example_deps :: deps where
  "example_deps = \<lparr> to_json_str = (\<lambda>j. case j of JStr s \<Rightarrow> s | _ \<Rightarrow> ''{}''), now = 7,
                     put_events = (\<lambda>en. None) \<rparr>"

definition client_error :: exn where
  "client_error = \<lparr> exn_mro = [''ClientError'', ''Exception'', ''BaseException'', ''object''],
                     exn_msg = ''events unavailable'' \<rparr>"

definition failing_deps :: deps where
  "failing_deps = example_deps\<lparr> put_events := (\<lambda>en. Some client_error) \<rparr>"

definition example_world :: world where
  "example_world = \<lparr> published = [], logged = [] \<rparr>"

definition example_execution :: execution where
  "example_execution =
     init_execution ''run'' ''arn:role'' ''arn:exec''
       \<lparr> sm_arn = ''arn:sm'', sm_name = ''machine'', sm_definition = ''{}'' \<rparr> 3 None None"

definition worker_in :: "ProgramState \<Rightarrow> json \<Rightarrow> worker" where
  "worker_in ps v = \<lparr> env = \<lparr> program_state = ps, inp = v \<rparr>, started = True \<rparr>"

definition running_with :: "ProgramState \<Rightarrow> json \<Rightarrow> execution" where
  "running_with ps v =
     example_execution\<lparr> exec_status := Some RUNNING, exec_worker := Some (worker_in ps v) \<rparr>"

definition errored_details :: "(string \<times> string option) list" where
  "errored_details = [(''error'', Some ''States.TaskFailed''), (''cause'', Some ''boom'')]"

definition failed_execution :: execution where
  "failed_execution = example_execution\<lparr> exec_status := Some FAILED,
       error := Some ''States.TaskFailed'', cause := Some ''boom'' \<rparr>"

text \<open>
  The fields that no operation assigns after the constructor: two executions agree on them.
\<close>

definition same_final_fields :: "execution \<Rightarrow> execution \<Rightarrow> bool" where
  "same_final_fields e e' =
     (name e' = name e \<and> role_arn e' = role_arn e \<and> exec_arn e' = exec_arn e \<and>
      state_machine e' = state_machine e \<and> start_date e' = start_date e \<and>
      input_data e' = input_data e \<and> input_details e' = input_details e \<and>
      trace_header e' = trace_header e \<and> output_details e' = output_details e)"

section \<open>asl/component/state/state_execution/state_task/state_task.py\<close>

text \<open>
  Modelled from the spec: the error names of \<open>states_error_name_type.py\<close>, which is not
  among the sources; the spec's taxonomy gives the names.
\<close>

datatype StatesErrorNameType =
    StatesALL
  | StatesTimeout
  | StatesTaskFailed
  | StatesRuntime
  | StatesNoChoiceMatched

fun to_name :: "StatesErrorNameType \<Rightarrow> string" where
  "to_name StatesALL = ''States.ALL''"
| "to_name StatesTimeout = ''States.Timeout''"
| "to_name StatesTaskFailed = ''States.TaskFailed''"
| "to_name StatesRuntime = ''States.Runtime''"
| "to_name StatesNoChoiceMatched = ''States.NoChoiceMatched''"

datatype ErrorName = StatesErrorName StatesErrorNameType | CustomErrorName string

datatype HistoryEventType =
    TaskStateEntered
  | TaskStateExited
  | TaskTimedOut
  | TaskFailed
  | ExecutionFailed

record FailureEvent =
  error_name :: ErrorName
  event_type :: HistoryEventType
  event_details :: pydict

text \<open>
  The environment of an evaluation, as far as the task state touches it: the value stack,
  whose top is the head of the list.
\<close>

record task_env =
  stack :: "json list"

definition get_timed_out_failure_event :: FailureEvent where
  "get_timed_out_failure_event =
     \<lparr> error_name = StatesErrorName StatesTimeout,
       event_type = TaskTimedOut,
       event_details =
         [(''taskTimedOutEventDetails'', JObj [(''error'', JStr (to_name StatesTimeout))])] \<rparr>"

text \<open>
  \<open>_from_error\<close>; the conversion of the superclass \<open>ExecutionState\<close> is not among the
  sources and is the first argument.
\<close>

definition from_error ::
  "(task_env \<Rightarrow> exn \<Rightarrow> FailureEvent) \<Rightarrow> task_env \<Rightarrow> exn \<Rightarrow> FailureEvent" where
  "from_error super_from_error en ex =
     (if isinstance ex ''TimeoutError'' then get_timed_out_failure_event
      else super_from_error en ex)"

text \<open>
  \<open>_eval_parameters\<close>. The arguments are \<open>Parameters.eval\<close> (not among the sources; it
  may raise, and otherwise leaves its value on the stack), the result of
  \<open>_get_supported_parameters\<close> (\<open>None\<close> in this class, a set of names in a subclass) and the
  state's \<open>parameters\<close> field. A set is truthy when it is not empty.
\<close>

definition eval_parameters ::
  "('p \<Rightarrow> task_env \<Rightarrow> failure option \<times> task_env) \<Rightarrow> string set option \<Rightarrow> 'p option
     \<Rightarrow> task_env \<Rightarrow> (failure + json) \<times> task_env" where
  "eval_parameters parameters_eval supported_parameters parameters en =
     (let popped =
        (case parameters of
           None \<Rightarrow> (Inr (JObj []), en)
         | Some p \<Rightarrow>
             (case parameters_eval p en of
                (Some f, en1) \<Rightarrow> (Inl f, en1)
              | (None, en1) \<Rightarrow>
                  (case stack en1 of
                     [] \<Rightarrow> (Inl (IndexError ''pop from empty list''), en1)
                   | v # rest \<Rightarrow> (Inr v, en1\<lparr>stack := rest\<rparr>))))
      in case popped of
           (Inl f, en2) \<Rightarrow> (Inl f, en2)
         | (Inr v, en2) \<Rightarrow>
             (case supported_parameters of
                None \<Rightarrow> (Inr v, en2)
              | Some supported \<Rightarrow>
                  (if supported = {} then (Inr v, en2)
                   else (case v of
                           JObj kvs \<Rightarrow> (Inr (JObj (filter (\<lambda>kv. fst kv \<in> supported) kvs)), en2)
                         | _ \<Rightarrow> (Inl (AttributeError ''keys''), en2)))))"

subsection \<open>Concrete task inputs\<close>

text \<open>
  A generic conversion standing for the superclass, a timeout, an environment whose stack top
  is the state's input, and a \<open>Parameters.eval\<close> that pushes its template.
\<close>

definition generic_failure :: "task_env \<Rightarrow> exn \<Rightarrow> FailureEvent" where
  "generic_failure en ex =
     \<lparr> error_name = StatesErrorName StatesTaskFailed, event_type = TaskFailed,
       event_details = [(''taskFailedEventDetails'', JObj [(''cause'', JStr (exn_msg ex))])] \<rparr>"

definition timeout_error :: exn where
  "timeout_error = \<lparr> exn_mro = [''TimeoutError'', ''OSError'', ''Exception'', ''BaseException'',
       ''object''], exn_msg = ''timed out'' \<rparr>"

definition input_env :: task_env where
  "input_env = \<lparr> stack = [JObj [(''a'', JNum 1)]] \<rparr>"

definition push_template :: "json \<Rightarrow> task_env \<Rightarrow> failure option \<times> task_env" where
  "push_template p en = (None, en\<lparr>stack := p # stack en\<rparr>)"

section \<open>services/iam/resource_providers/aws\_iam\_role.py\<close>

text \<open>
  The values inside a policy document. Python's \<open>==\<close> on dicts ignores the order of the
  keys, so a dict is a finite map here, and \<open>True\<close> and \<open>False\<close> are the numbers 1 and 0,
  as they are for \<open>==\<close>; equality of these values is then Python's.
\<close>

datatype pyval =
    PNone
  | PNum int
  | PStr string
  | PList "pyval list"
  | PDict "(string, pyval) fmap"

fun truthy :: "pyval \<Rightarrow> bool" where
  "truthy PNone = False"
| "truthy (PNum n) = (n \<noteq> 0)"
| "truthy (PStr s) = (s \<noteq> [])"
| "truthy (PList xs) = (xs \<noteq> [])"
| "truthy (PDict m) = (m \<noteq> fmempty)"

text \<open>
  A key of a \<open>TypedDict\<close> with an \<open>Optional\<close> type: the key may be missing, or hold
  \<open>None\<close>, or hold a value of the type.
\<close>

datatype 'a field = Absent | PyNone | Val 'a

text \<open>\<open>d.get(k)\<close>: a missing key reads as \<open>None\<close>.\<close>

fun get_field :: "'a field \<Rightarrow> 'a option" where
  "get_field (Val v) = Some v"
| "get_field _ = None"

text \<open>\<open>d.get(k, default)\<close>: only a missing key takes the default.\<close>

fun get_default :: "'a \<Rightarrow> 'a field \<Rightarrow> 'a field" where
  "get_default dflt Absent = Val dflt"
| "get_default dflt f = f"

datatype policy_document = DocStr string | DocDict "(string, pyval) fmap"

fun doc_value :: "policy_document \<Rightarrow> pyval" where
  "doc_value (DocStr s) = PStr s"
| "doc_value (DocDict m) = PDict m"

record Policy =
  PolicyDocument :: "policy_document field"
  PolicyName :: "string field"

record Tag =
  Key :: "string field"
  Value :: "string field"

record IAMRoleProperties =
  AssumeRolePolicyDocument :: "policy_document field"
  Arn :: "string field"
  Description :: "string field"
  ManagedPolicyArns :: "string list field"
  MaxSessionDuration :: "int field"
  Path :: "string field"
  PermissionsBoundary :: "string field"
  Policies :: "Policy list field"
  RoleId :: "string field"
  RoleName :: "string field"
  Tags :: "Tag list field"

definition empty_model :: IAMRoleProperties where
  "empty_model =
     \<lparr> AssumeRolePolicyDocument = Absent, Arn = Absent, Description = Absent,
       ManagedPolicyArns = Absent, MaxSessionDuration = Absent, Path = Absent,
       PermissionsBoundary = Absent, Policies = Absent, RoleId = Absent, RoleName = Absent,
       Tags = Absent \<rparr>"

definition IAM_POLICY_VERSION :: string where
  "IAM_POLICY_VERSION = ''2012-10-17''"

datatype OperationStatus = PENDING | IN_PROGRESS | SUCCESS | OP_FAILED

record ProgressEvent =
  status :: OperationStatus
  resource_model :: IAMRoleProperties

record ResourceRequest =
  desired_state :: IAMRoleProperties
  previous_state :: IAMRoleProperties
  stack_name :: string
  logical_resource_id :: string

text \<open>
  The calls of the IAM client that \<open>create\<close> and \<open>delete\<close> make. A role name is \<open>None\<close>
  when the state holds \<open>None\<close> for it.
\<close>

datatype iam_call =
    CreateRole IAMRoleProperties
  | AttachRolePolicy "string option" string
  | PutRolePolicy "string option" "string option" string
  | ListAttachedRolePolicies "string option"
  | DetachRolePolicy "string option" string
  | ListRolePolicies "string option"
  | DeleteRolePolicy "string option" string
  | DeleteRole "string option"

text \<open>What a call returns: the new role's Arn and RoleId, or the listed policies.\<close>

datatype iam_result =
    Done
  | RoleCreated string string
  | AttachedPolicies "string list"
  | PolicyNames "string list"

text \<open>
  The collaborators, none of them among the sources: the IAM client, a state machine of its
  own whose calls return or raise, \<open>util.generate_default_name\<close>, \<open>json.dumps\<close> and
  \<open>util.remove_none_values\<close>.
\<close>

record 'c provider_deps =
  iam :: "iam_call \<Rightarrow> 'c \<Rightarrow> (exn + iam_result) \<times> 'c"
  generate_default_name :: "string \<Rightarrow> string \<Rightarrow> string"
  json_dumps :: "pyval \<Rightarrow> string"
  remove_none_values :: "(string, pyval) fmap \<Rightarrow> (string, pyval) fmap"

text \<open>The client's state together with the calls made so far, oldest first.\<close>

record 'c iam_state =
  client :: 'c
  calls :: "iam_call list"

definition invoke ::
  "'c provider_deps \<Rightarrow> iam_call \<Rightarrow> 'c iam_state \<Rightarrow> (failure + iam_result) \<times> 'c iam_state" where
  "invoke D c st =
     (case iam D c (client st) of
        (r, c') \<Rightarrow>
          ((case r of Inl ex \<Rightarrow> Inl (Raised ex) | Inr v \<Rightarrow> Inr v),
           \<lparr> client = c', calls = calls st @ [c] \<rparr>))"

text \<open>\<open>call_safe\<close> (not among the sources) makes the call and swallows an \<open>Exception\<close>.\<close>

definition call_safe ::
  "'c provider_deps \<Rightarrow> iam_call \<Rightarrow> 'c iam_state \<Rightarrow> failure option \<times> 'c iam_state" where
  "call_safe D c st =
     (case invoke D c st of
        (Inl (Raised ex), st') \<Rightarrow>
          (if isinstance ex ''Exception'' then (None, st') else (Some (Raised ex), st'))
      | (Inl f, st') \<Rightarrow> (Some f, st')
      | (Inr r, st') \<Rightarrow> (None, st'))"

fun detach_all ::
  "'c provider_deps \<Rightarrow> string option \<Rightarrow> string list \<Rightarrow> 'c iam_state
     \<Rightarrow> failure option \<times> 'c iam_state" where
  "detach_all D rn [] st = (None, st)"
| "detach_all D rn (a # as) st =
     (case call_safe D (DetachRolePolicy rn a) st of
        (Some f, st') \<Rightarrow> (Some f, st')
      | (None, st') \<Rightarrow> detach_all D rn as st')"

fun delete_inline_all ::
  "'c provider_deps \<Rightarrow> string option \<Rightarrow> string list \<Rightarrow> 'c iam_state
     \<Rightarrow> failure option \<times> 'c iam_state" where
  "delete_inline_all D rn [] st = (None, st)"
| "delete_inline_all D rn (p # ps) st =
     (case call_safe D (DeleteRolePolicy rn p) st of
        (Some f, st') \<Rightarrow> (Some f, st')
      | (None, st') \<Rightarrow> delete_inline_all D rn ps st')"

text \<open>\<open>response.get("AttachedPolicies", [])\<close> and \<open>response.get("PolicyNames", [])\<close>.\<close>

fun attached_policies :: "iam_result \<Rightarrow> string list" where
  "attached_policies (AttachedPolicies as) = as"
| "attached_policies r = []"

fun policy_names :: "iam_result \<Rightarrow> string list" where
  "policy_names (PolicyNames ps) = ps"
| "policy_names r = []"

definition delete ::
  "'c provider_deps \<Rightarrow> ResourceRequest \<Rightarrow> 'c iam_state
     \<Rightarrow> (failure + ProgressEvent) \<times> 'c iam_state" where
  "delete D req st =
     (case RoleName (previous_state req) of
        Absent \<Rightarrow> (Inl (KeyError ''RoleName''), st)
      | fld \<Rightarrow>
          (let role_name = get_field fld in
           case invoke D (ListAttachedRolePolicies role_name) st of
             (Inl f, st1) \<Rightarrow> (Inl f, st1)
           | (Inr attached, st1) \<Rightarrow>
               (case detach_all D role_name (attached_policies attached) st1 of
                  (Some f, st2) \<Rightarrow> (Inl f, st2)
                | (None, st2) \<Rightarrow>
                    (case invoke D (ListRolePolicies role_name) st2 of
                       (Inl f, st3) \<Rightarrow> (Inl f, st3)
                     | (Inr inline, st3) \<Rightarrow>
                         (case delete_inline_all D role_name (policy_names inline) st3 of
                            (Some f, st4) \<Rightarrow> (Inl f, st4)
                          | (None, st4) \<Rightarrow>
                              (case invoke D (DeleteRole role_name) st4 of
                                 (Inl f, st5) \<Rightarrow> (Inl f, st5)
                               | (Inr r, st5) \<Rightarrow>
                                   (Inr \<lparr> status = SUCCESS, resource_model = empty_model \<rparr>,
                                    st5)))))))"

text \<open>
  The inline policy document that \<open>create\<close> sends: \<open>dict(...)\<close> of the document (only a
  dict or the empty string pass), \<open>None\<close> values removed, the version defaulted, and empty
  resources dropped from every statement. The source cleans the statement dicts in place, and
  they may be shared with the desired state; the resource model below keeps the policies as
  they were given.
\<close>

fun clean_statement :: "pyval \<Rightarrow> failure + pyval" where
  "clean_statement (PDict sm) =
     Inr (case fmlookup sm ''Resource'' of
            Some (PList rs) \<Rightarrow> PDict (fmupd ''Resource'' (PList (filter truthy rs)) sm)
          | _ \<Rightarrow> PDict sm)"
| "clean_statement v = Inl (AttributeError ''get'')"

fun clean_statements :: "pyval list \<Rightarrow> failure + pyval list" where
  "clean_statements [] = Inr []"
| "clean_statements (s # ss) =
     (case clean_statement s of
        Inl f \<Rightarrow> Inl f
      | Inr s' \<Rightarrow> (case clean_statements ss of Inl f \<Rightarrow> Inl f | Inr ss' \<Rightarrow> Inr (s' # ss')))"

definition finish_policy_document ::
  "'c provider_deps \<Rightarrow> (string, pyval) fmap \<Rightarrow> failure + string" where
  "finish_policy_document D m =
     (let doc = remove_none_values D m;
          version = (case fmlookup doc ''Version'' of
                       None \<Rightarrow> PStr IAM_POLICY_VERSION
                     | Some v \<Rightarrow> if truthy v then v else PStr IAM_POLICY_VERSION);
          doc1 = fmupd ''Version'' version doc
      in case fmlookup doc1 ''Statement'' of
           None \<Rightarrow> Inl (KeyError ''Statement'')
         | Some (PList ss) \<Rightarrow>
             (case clean_statements ss of
                Inl f \<Rightarrow> Inl f
              | Inr ss' \<Rightarrow> Inr (json_dumps D (PDict (fmupd ''Statement'' (PList ss') doc1))))
         | Some s \<Rightarrow>
             (case clean_statement s of
                Inl f \<Rightarrow> Inl f
              | Inr s' \<Rightarrow> Inr (json_dumps D (PDict (fmupd ''Statement'' s' doc1)))))"

definition render_policy_document :: "'c provider_deps \<Rightarrow> Policy \<Rightarrow> failure + string" where
  "render_policy_document D p =
     (case PolicyDocument p of
        Absent \<Rightarrow> Inl (KeyError ''PolicyDocument'')
      | PyNone \<Rightarrow> Inl (TypeError ''NoneType object is not iterable'')
      | Val (DocStr s) \<Rightarrow>
          (if s = [] then finish_policy_document D fmempty
           else Inl (ValueError ''dictionary update sequence element''))
      | Val (DocDict m) \<Rightarrow> finish_policy_document D m)"

fun attach_all ::
  "'c provider_deps \<Rightarrow> string option \<Rightarrow> string list \<Rightarrow> 'c iam_state
     \<Rightarrow> failure option \<times> 'c iam_state" where
  "attach_all D rn [] st = (None, st)"
| "attach_all D rn (a # as) st =
     (case invoke D (AttachRolePolicy rn a) st of
        (Inl f, st') \<Rightarrow> (Some f, st')
      | (Inr r, st') \<Rightarrow> attach_all D rn as st')"

fun put_all ::
  "'c provider_deps \<Rightarrow> string option \<Rightarrow> Policy list \<Rightarrow> 'c iam_state
     \<Rightarrow> failure option \<times> 'c iam_state" where
  "put_all D rn [] st = (None, st)"
| "put_all D rn (p # ps) st =
     (case render_policy_document D p of
        Inl f \<Rightarrow> (Some f, st)
      | Inr doc \<Rightarrow>
          (case invoke D (PutRolePolicy rn (get_field (PolicyName p)) doc) st of
             (Inl f, st') \<Rightarrow> (Some f, st')
           | (Inr r, st') \<Rightarrow> put_all D rn ps st'))"

text \<open>
  \<open>create\<close>. An entry of \<open>Policies\<close> is a \<open>Policy\<close> dict by its type, so the branch for
  an entry that is not a dict has no counterpart.
\<close>

definition create ::
  "'c provider_deps \<Rightarrow> ResourceRequest \<Rightarrow> 'c iam_state
     \<Rightarrow> (failure + ProgressEvent) \<times> 'c iam_state" where
  "create D req st =
     (let model0 = desired_state req;
          default_name = generate_default_name D (stack_name req) (logical_resource_id req);
          role_name = (case get_field (RoleName model0) of
                         None \<Rightarrow> default_name
                       | Some n \<Rightarrow> if n = [] then default_name else n);
          model = (case get_field (RoleName model0) of
                     None \<Rightarrow> model0\<lparr>RoleName := Val default_name\<rparr>
                   | Some n \<Rightarrow> if n = [] then model0\<lparr>RoleName := Val default_name\<rparr>
                               else model0)
      in case AssumeRolePolicyDocument model of
           Absent \<Rightarrow> (Inl (KeyError ''AssumeRolePolicyDocument''), st)
         | fld \<Rightarrow>
             (let dumped = json_dumps D (case get_field fld of
                                           None \<Rightarrow> PNone
                                         | Some doc \<Rightarrow> doc_value doc)
              in case invoke D (CreateRole (model\<lparr>ManagedPolicyArns := Absent,
                            Policies := Absent,
                            AssumeRolePolicyDocument := Val (DocStr dumped)\<rparr>)) st of
                   (Inl f, st1) \<Rightarrow> (Inl f, st1)
                 | (Inr resp, st1) \<Rightarrow>
                     (case get_field (get_default [] (ManagedPolicyArns model)) of
                        None \<Rightarrow> (Inl (TypeError ''NoneType object is not iterable''), st1)
                      | Some arns \<Rightarrow>
                          (case attach_all D (Some role_name) arns st1 of
                             (Some f, st2) \<Rightarrow> (Inl f, st2)
                           | (None, st2) \<Rightarrow>
                               (case get_field (get_default [] (Policies model)) of
                                  None \<Rightarrow>
                                    (Inl (TypeError ''NoneType object is not iterable''), st2)
                                | Some ps \<Rightarrow>
                                    (case put_all D (Some role_name) ps st2 of
                                       (Some f, st3) \<Rightarrow> (Inl f, st3)
                                     | (None, st3) \<Rightarrow>
                                         (case resp of
                                            RoleCreated a i \<Rightarrow>
                                              (Inr \<lparr> status = SUCCESS,
                                                     resource_model =
                                                       model\<lparr>Arn := Val a, RoleId := Val i\<rparr> \<rparr>,
                                               st3)
                                          | _ \<Rightarrow> (Inl (KeyError ''Role''), st3))))))))"

text \<open>
  The three tests of \<open>update\<close>. \<open>x and y\<close> is falsy when \<open>x\<close> is; the previous role name is
  subscripted, so a missing key raises, but only when the desired name is truthy.
\<close>

definition name_changed :: "ResourceRequest \<Rightarrow> failure + bool" where
  "name_changed req =
     (case get_field (RoleName (desired_state req)) of
        None \<Rightarrow> Inr False
      | Some new_role_name \<Rightarrow>
          (if new_role_name = [] then Inr False
           else (case RoleName (previous_state req) of
                   Absent \<Rightarrow> Inl (KeyError ''RoleName'')
                 | old \<Rightarrow> Inr (Val new_role_name \<noteq> old))))"

definition doc_truthy :: "policy_document \<Rightarrow> bool" where
  "doc_truthy doc = truthy (doc_value doc)"

definition policy_changed :: "ResourceRequest \<Rightarrow> bool" where
  "policy_changed req =
     (case get_field (AssumeRolePolicyDocument (desired_state req)) of
        None \<Rightarrow> False
      | Some props_policy \<Rightarrow>
          doc_truthy props_policy \<and>
          Val props_policy
            \<noteq> get_default (DocStr []) (AssumeRolePolicyDocument (previous_state req)))"

definition managed_policy_arns_changed :: "ResourceRequest \<Rightarrow> bool" where
  "managed_policy_arns_changed req =
     (get_default [] (ManagedPolicyArns (desired_state req))
        \<noteq> get_default [] (ManagedPolicyArns (previous_state req)))"

definition update ::
  "'c provider_deps \<Rightarrow> ResourceRequest \<Rightarrow> 'c iam_state
     \<Rightarrow> (failure + ProgressEvent) \<times> 'c iam_state" where
  "update D req st =
     (case name_changed req of
        Inl f \<Rightarrow> (Inl f, st)
      | Inr nc \<Rightarrow>
          (if nc \<or> policy_changed req \<or> managed_policy_arns_changed req
           then (case delete D req st of
                   (Inl f, st1) \<Rightarrow> (Inl f, st1)
                 | (Inr ev, st1) \<Rightarrow> create D req st1)
           else (Inr \<lparr> status = SUCCESS, resource_model = previous_state req \<rparr>, st)))"

text \<open>
  The calls that take a role away: listing and detaching its managed policies, listing and
  deleting its inline policies, deleting the role. And the calls that set a role up under a
  name: creating it, attaching managed policies to it, putting inline policies on it.
\<close>

fun deletion_call :: "string option \<Rightarrow> iam_call \<Rightarrow> bool" where
  "deletion_call rn (ListAttachedRolePolicies n) = (n = rn)"
| "deletion_call rn (DetachRolePolicy n a) = (n = rn)"
| "deletion_call rn (ListRolePolicies n) = (n = rn)"
| "deletion_call rn (DeleteRolePolicy n p) = (n = rn)"
| "deletion_call rn (DeleteRole n) = (n = rn)"
| "deletion_call rn c = False"

fun creation_call :: "string \<Rightarrow> iam_call \<Rightarrow> bool" where
  "creation_call nm (CreateRole kw) = (RoleName kw = Val nm)"
| "creation_call nm (AttachRolePolicy n a) = (n = Some nm)"
| "creation_call nm (PutRolePolicy n pn doc) = (n = Some nm)"
| "creation_call nm c = False"

text \<open>
  The name of the role a request asks for: the desired name when one is given, the generated
  default otherwise.
\<close>

definition new_role_name :: "'c provider_deps \<Rightarrow> ResourceRequest \<Rightarrow> string" where
  "new_role_name D req =
     (case RoleName (desired_state req) of
        Val n \<Rightarrow> if n = [] then generate_default_name D (stack_name req) (logical_resource_id req)
                 else n
      | _ \<Rightarrow> generate_default_name D (stack_name req) (logical_resource_id req))"

text \<open>
  A replacement: \<open>delete\<close>, and then \<open>create\<close> unless \<open>delete\<close> raised.
\<close>

definition delete_then_create ::
  "'c provider_deps \<Rightarrow> ResourceRequest \<Rightarrow> 'c iam_state
     \<Rightarrow> (failure + ProgressEvent) \<times> 'c iam_state" where
  "delete_then_create D req st =
     (case delete D req st of
        (Inl f, st1) \<Rightarrow> (Inl f, st1)
      | (Inr deleted, st1) \<Rightarrow> create D req st1)"

text \<open>
  The calls of one client state are those of another followed by calls that all satisfy a
  given test.
\<close>

definition grows :: "(iam_call \<Rightarrow> bool) \<Rightarrow> 'c iam_state \<Rightarrow> 'c iam_state \<Rightarrow> bool" where
  "grows P st st' =
     (take (length (calls st)) (calls st') = calls st \<and>
      list_all P (drop (length (calls st)) (calls st')))"

subsection \<open>Concrete role requests\<close>

text \<open>
  A client that answers every call, the state a stack holds for a role created without a
  name, and four update requests against it: one that changes nothing and still gives no
  name, one that changes only the trust policy, one that changes only the managed policies,
  and one that gives a new name.
\<close>

definition role_client :: "iam_call \<Rightarrow> nat \<Rightarrow> (exn + iam_result) \<times> nat" where
  "role_client c n =
     (case c of
        CreateRole kw \<Rightarrow> (Inr (RoleCreated ''arn:aws:iam::000000000000:role/new-role'' ''AROA1''), Suc n)
      | ListAttachedRolePolicies rn \<Rightarrow> (Inr (AttachedPolicies [''arn:aws:iam::aws:policy/ReadOnly'']), Suc n)
      | ListRolePolicies rn \<Rightarrow> (Inr (PolicyNames [''inline'']), Suc n)
      | _ \<Rightarrow> (Inr Done, Suc n))"

definition example_provider :: "nat provider_deps" where
  "example_provider =
     \<lparr> iam = role_client,
       generate_default_name = (\<lambda>s l. s @ ''-'' @ l),
       json_dumps = (\<lambda>v. case v of PStr s \<Rightarrow> s | _ \<Rightarrow> ''{}''),
       remove_none_values = (\<lambda>m. m) \<rparr>"

definition fresh_client :: "nat iam_state" where
  "fresh_client = \<lparr> client = 0, calls = [] \<rparr>"

definition created_state :: IAMRoleProperties where
  "created_state =
     empty_model\<lparr> AssumeRolePolicyDocument := Val (DocStr ''trust''),
                  RoleName := Val ''stack-Role'',
                  Arn := Val ''arn:aws:iam::000000000000:role/stack-Role'',
                  RoleId := Val ''AROA0'' \<rparr>"

definition unnamed_request :: ResourceRequest where
  "unnamed_request =
     \<lparr> desired_state = empty_model\<lparr> AssumeRolePolicyDocument := Val (DocStr ''trust'') \<rparr>,
       previous_state = created_state, stack_name = ''stack'', logical_resource_id = ''Role'' \<rparr>"

definition repoliced_request :: ResourceRequest where
  "repoliced_request =
     \<lparr> desired_state = empty_model\<lparr> AssumeRolePolicyDocument := Val (DocStr ''trust-v2'') \<rparr>,
       previous_state = created_state, stack_name = ''stack'', logical_resource_id = ''Role'' \<rparr>"

definition rearned_request :: ResourceRequest where
  "rearned_request =
     \<lparr> desired_state = empty_model\<lparr> AssumeRolePolicyDocument := Val (DocStr ''trust''),
            ManagedPolicyArns := Val [''arn:aws:iam::aws:policy/ReadOnly''] \<rparr>,
       previous_state = created_state, stack_name = ''stack'', logical_resource_id = ''Role'' \<rparr>"

definition renamed_request :: ResourceRequest where
  "renamed_request =
     \<lparr> desired_state = empty_model\<lparr> AssumeRolePolicyDocument := Val (DocStr ''trust''),
                                      RoleName := Val ''new-role'' \<rparr>,
       previous_state = created_state, stack_name = ''stack'', logical_resource_id = ''Role'' \<rparr>"

text \<open>
  A client whose \<open>delete_role\<close> raises, and the calls that delete the role of the
  previous state when every call returns.
\<close>

definition delete_conflict :: exn where
  "delete_conflict = \<lparr> exn_mro = [''DeleteConflictException'', ''ClientError'', ''Exception'',
       ''BaseException'', ''object''], exn_msg = ''role in use'' \<rparr>"

definition refusing_client :: "iam_call \<Rightarrow> nat \<Rightarrow> (exn + iam_result) \<times> nat" where
  "refusing_client c n =
     (case c of DeleteRole rn \<Rightarrow> (Inl delete_conflict, Suc n) | _ \<Rightarrow> role_client c n)"

definition refusing_provider :: "nat provider_deps" where
  "refusing_provider = example_provider\<lparr> iam := refusing_client \<rparr>"

definition deletion_of_stack_role :: "iam_call list" where
  "deletion_of_stack_role =
     [ListAttachedRolePolicies (Some ''stack-Role''),
      DetachRolePolicy (Some ''stack-Role'') ''arn:aws:iam::aws:policy/ReadOnly'',
      ListRolePolicies (Some ''stack-Role''),
      DeleteRolePolicy (Some ''stack-Role'') ''inline'',
      DeleteRole (Some ''stack-Role'')]"

section \<open>Properties of the execution entity\<close>

lemma publish_keeps_execution:
  "fst (snd (publish_execution_status_change_event d e w)) = e"
  by (simp add: publish_execution_status_change_event_def Let_def split: option.splits)

text \<open>
  Claim C1. If the worker's program state is \<open>ProgramEnded\<close> when the completion callback runs, the callback leaves the status \<open>SUCCEEDED\<close> and the output equal to \<open>to_json_str\<close> of the environment's final value \<open>env.inp\<close>.
\<close>

theorem terminated_ended_succeeded:
  assumes "exec_worker e = Some wk" and "program_state (env wk) = ProgramEnded"
  shows "exec_status (fst (snd (terminated d e w))) = Some SUCCEEDED \<and>
         output_str (fst (snd (terminated d e w))) = Some (to_json_str d (inp (env wk)))"
  using assms by (simp add: terminated_def Let_def publish_keeps_execution)

theorem terminated_ended_succeeded_witness:
  "exec_status (fst (snd (terminated example_deps (running_with ProgramEnded (JStr ''done''))
       example_world))) = Some SUCCEEDED \<and>
   output_str (fst (snd (terminated example_deps (running_with ProgramEnded (JStr ''done''))
       example_world))) = Some ''done''"
  using terminated_ended_succeeded [of "running_with ProgramEnded (JStr ''done'')"
      "worker_in ProgramEnded (JStr ''done'')" example_deps example_world]
  by (simp add: running_with_def worker_in_def example_deps_def)

text \<open>
  Claim C2. If the worker's program state is \<open>ProgramError\<close> with an error and a cause, the completion callback leaves the status \<open>FAILED\<close> and the fields \<open>error\<close> and \<open>cause\<close> equal to those two values, and the describe output then carries exactly them: the string under the key when the value is a string, no key when it is \<open>None\<close>.
\<close>

theorem terminated_errored_failed:
  assumes "exec_worker e = Some wk" and "program_state (env wk) = ProgramError details"
    and "map_of details ''error'' = Some er" and "map_of details ''cause'' = Some ca"
  shows "exec_status (fst (snd (terminated d e w))) = Some FAILED \<and>
         error (fst (snd (terminated d e w))) = er \<and>
         cause (fst (snd (terminated d e w))) = ca \<and>
         map_of (to_describe_output d (fst (snd (terminated d e w)))) ''error''
           = map_option JStr er \<and>
         map_of (to_describe_output d (fst (snd (terminated d e w)))) ''cause''
           = map_option JStr ca"
  using assms
  by (simp add: terminated_def Let_def publish_keeps_execution to_describe_output_def
      split: option.splits)

theorem terminated_errored_failed_witness:
  "exec_worker (running_with (ProgramError errored_details) JNull)
     = Some (worker_in (ProgramError errored_details) JNull) \<and>
   map_of errored_details ''error'' = Some (Some ''States.TaskFailed'') \<and>
   map_of errored_details ''cause'' = Some (Some ''boom'') \<and>
   exec_status (fst (snd (terminated example_deps
       (running_with (ProgramError errored_details) JNull) example_world))) = Some FAILED \<and>
   map_of (to_describe_output example_deps (fst (snd (terminated example_deps
       (running_with (ProgramError errored_details) JNull) example_world)))) ''error''
     = Some (JStr ''States.TaskFailed'') \<and>
   map_of (to_describe_output example_deps (fst (snd (terminated example_deps
       (running_with (ProgramError errored_details) JNull) example_world)))) ''cause''
     = Some (JStr ''boom'')"
  using terminated_errored_failed [of "running_with (ProgramError errored_details) JNull"
      "worker_in (ProgramError errored_details) JNull" errored_details
      "Some ''States.TaskFailed''" "Some ''boom''" example_deps example_world]
  by (simp add: running_with_def worker_in_def errored_details_def)

text \<open>
  Claim C3. \<open>start\<close> on an execution that already has a worker raises \<open>InvalidName\<close> and changes nothing: the execution, its worker included, and the sink are as before. The worker is one optional field, so there is never more than one.
\<close>

theorem start_conflict:
  assumes "exec_worker e = Some wk"
  shows "start d e w = (Some InvalidName, e, w) \<and>
         exec_worker (fst (snd (start d e w))) = Some wk"
  using assms by (simp add: start_def)

theorem start_conflict_witness:
  "exec_worker (running_with ProgramRunning JNull) = Some (worker_in ProgramRunning JNull) \<and>
   start example_deps (running_with ProgramRunning JNull) example_world
     = (Some InvalidName, running_with ProgramRunning JNull, example_world)"
  using start_conflict [of "running_with ProgramRunning JNull" "worker_in ProgramRunning JNull"
      example_deps example_world]
  by (simp add: running_with_def)

text \<open>
  Claim C4. \<open>stop\<close> on an execution with no active worker, whether it never had a worker or
  its worker's program has ended, been stopped or failed, raises \<open>RuntimeError\<close> and leaves
  the whole execution, hence its status, output, error and cause, as it was.
\<close>

theorem stop_without_worker:
  assumes "\<not> active_worker e"
  shows "stop e sd er ca
           = (Some (RuntimeError (if exec_worker e = None then ''No running executions.''
                                  else ''Cannot stop non running ProgramState.'')), e) \<and>
         exec_status (snd (stop e sd er ca)) = exec_status e \<and>
         output_str (snd (stop e sd er ca)) = output_str e \<and>
         error (snd (stop e sd er ca)) = error e \<and>
         cause (snd (stop e sd er ca)) = cause e"
proof (cases "exec_worker e")
  case None
  then show ?thesis by (simp add: stop_def)
next
  case (Some wk)
  with assms have "program_state (env wk) \<noteq> ProgramRunning"
    by (simp add: active_worker_def)
  then have "worker_stop wk sd ca er
               = (Some (RuntimeError ''Cannot stop non running ProgramState.''), wk)"
    by (cases "program_state (env wk)") (simp_all add: worker_stop_def)
  with Some show ?thesis by (simp add: stop_def)
qed

theorem stop_without_worker_witness:
  "\<not> active_worker example_execution \<and>
   stop example_execution 9 None None
     = (Some (RuntimeError ''No running executions.''), example_execution) \<and>
   \<not> active_worker (running_with ProgramEnded JNull) \<and>
   stop (running_with ProgramEnded JNull) 9 None None
     = (Some (RuntimeError ''Cannot stop non running ProgramState.''),
        running_with ProgramEnded JNull) \<and>
   \<not> active_worker (running_with (ProgramError errored_details) JNull) \<and>
   stop (running_with (ProgramError errored_details) JNull) 9 (Some ''E'') (Some ''why'')
     = (Some (RuntimeError ''Cannot stop non running ProgramState.''),
        running_with (ProgramError errored_details) JNull)"
  using stop_without_worker [of example_execution 9 None None]
    stop_without_worker [of "running_with ProgramEnded JNull" 9 None None]
    stop_without_worker [of "running_with (ProgramError errored_details) JNull" 9
      "Some ''E''" "Some ''why''"]
  by (simp add: active_worker_def example_execution_def init_execution_def running_with_def
      worker_in_def)

lemma stop_active_worker:
  assumes "exec_worker e = Some wk" and "program_state (env wk) = ProgramRunning"
  shows "stop e sd er ca
           = (None, e\<lparr>exec_worker :=
                Some (wk\<lparr>env := (env wk)\<lparr>program_state := ProgramStopped sd er ca\<rparr>\<rparr>)\<rparr>)"
  using assms by (simp add: stop_def worker_stop_def)

text \<open>
  Claim C7. When \<open>put_events\<close> raises an instance of \<open>Exception\<close>, publishing returns
  normally and the entry is logged; and however publishing ends, the execution, hence its
  status, output, error and cause, is as it was.
\<close>

theorem publish_failure_logged:
  "(put_events d (status_change_entry d e) = Some ex \<and> isinstance ex ''Exception'' \<longrightarrow>
      publish_execution_status_change_event d e w
        = (None, e, w\<lparr>logged := logged w @ [status_change_entry d e]\<rparr>)) \<and>
   fst (snd (publish_execution_status_change_event d e w)) = e"
  by (simp add: publish_execution_status_change_event_def Let_def split: option.splits)

theorem publish_failure_logged_witness:
  "put_events failing_deps (status_change_entry failing_deps example_execution)
     = Some client_error \<and>
   isinstance client_error ''Exception'' \<and>
   publish_execution_status_change_event failing_deps example_execution example_world
     = (None, example_execution,
        example_world\<lparr>logged := [status_change_entry failing_deps example_execution]\<rparr>)"
  using publish_failure_logged [of failing_deps example_execution client_error example_world]
  by (simp add: failing_deps_def client_error_def isinstance_def example_world_def)

text \<open>
  Claim C8 as stated fails: \<open>start\<close> on a fresh execution also assigns the field \<open>exec_worker\<close>, which is not among status, stop date, output, error and cause.
\<close>

theorem start_sets_worker_counterexample:
  "exec_worker (fst (snd (start example_deps example_execution example_world)))
     \<noteq> exec_worker example_execution"
  by (simp add: start_def example_execution_def init_execution_def Let_def
      publish_execution_status_change_event_def example_deps_def)

lemma start_frame: "same_final_fields e (fst (snd (start d e w)))"
  by (simp add: start_def same_final_fields_def publish_execution_status_change_event_def Let_def
      split: option.splits prod.splits)

lemma stop_frame: "same_final_fields e (snd (stop e sd er ca))"
  by (simp add: stop_def same_final_fields_def split: option.splits prod.splits)

lemma terminated_frame: "same_final_fields e (fst (snd (terminated d e w)))"
  by (simp add: terminated_def same_final_fields_def publish_keeps_execution Let_def
      split: option.splits ProgramState.splits)

text \<open>
  Claim C8, amended: \<open>start\<close>, \<open>stop\<close> and the completion callback leave name, role_arn, exec_arn, state_machine and start_date unchanged, as well as input_data, input_details, trace_header and output_details; the fields they may assign are status, stop_date, output, error, cause and the worker reference \<open>exec_worker\<close>.
\<close>

theorem operations_frame:
  "same_final_fields e (fst (snd (start d e w))) \<and>
   same_final_fields e (snd (stop e sd er ca)) \<and>
   same_final_fields e (fst (snd (terminated d e w)))"
  by (simp add: start_frame stop_frame terminated_frame)

text \<open>
  Claim C9. The describe output has the keys \<open>output\<close> and \<open>outputDetails\<close> exactly when the status is \<open>SUCCEEDED\<close>, the key \<open>error\<close> exactly when the error is not \<open>None\<close>, and the key \<open>cause\<close> exactly when the cause is not \<open>None\<close>; so a \<open>FAILED\<close> or \<open>ABORTED\<close> execution has no \<open>output\<close> key.
\<close>

theorem describe_output_keys:
  "has_key (to_describe_output d e) ''output'' = (exec_status e = Some SUCCEEDED) \<and>
   has_key (to_describe_output d e) ''outputDetails'' = (exec_status e = Some SUCCEEDED) \<and>
   has_key (to_describe_output d e) ''error'' = (error e \<noteq> None) \<and>
   has_key (to_describe_output d e) ''cause'' = (cause e \<noteq> None) \<and>
   (exec_status e = Some FAILED \<or> exec_status e = Some ABORTED
      \<longrightarrow> \<not> has_key (to_describe_output d e) ''output'')"
  by (cases "exec_status e = Some SUCCEEDED"; cases "error e"; cases "cause e";
      auto simp add: has_key_def to_describe_output_def)

theorem describe_output_keys_witness:
  "exec_status failed_execution = Some FAILED \<and>
   \<not> has_key (to_describe_output example_deps failed_execution) ''output'' \<and>
   has_key (to_describe_output example_deps failed_execution) ''error''"
  using describe_output_keys [of example_deps failed_execution]
  by (simp add: failed_execution_def)

section \<open>Properties of the task state\<close>

text \<open>
  Claim C5. When the exception of the wrapped invocation is a \<open>TimeoutError\<close>, the failure
  event has the error name \<open>States.Timeout\<close> and the history event type \<open>TaskTimedOut\<close>;
  for every other exception the failure event is the one of the generic conversion of the
  superclass.
\<close>

theorem from_error_timeout:
  "(isinstance ex ''TimeoutError'' \<longrightarrow>
      error_name (from_error super_from_error en ex) = StatesErrorName StatesTimeout \<and>
      event_type (from_error super_from_error en ex) = TaskTimedOut \<and>
      event_details (from_error super_from_error en ex)
        = [(''taskTimedOutEventDetails'', JObj [(''error'', JStr ''States.Timeout'')])]) \<and>
   (\<not> isinstance ex ''TimeoutError'' \<longrightarrow> from_error super_from_error en ex = super_from_error en ex)"
  by (simp add: from_error_def get_timed_out_failure_event_def)

theorem from_error_timeout_witness:
  "isinstance timeout_error ''TimeoutError'' \<and>
   error_name (from_error generic_failure input_env timeout_error)
     = StatesErrorName StatesTimeout \<and>
   event_type (from_error generic_failure input_env timeout_error) = TaskTimedOut \<and>
   \<not> isinstance client_error ''TimeoutError'' \<and>
   error_name (from_error generic_failure input_env client_error)
     = StatesErrorName StatesTaskFailed"
  using from_error_timeout [of timeout_error generic_failure input_env]
    from_error_timeout [of client_error generic_failure input_env]
  by (simp add: isinstance_def timeout_error_def client_error_def generic_failure_def)

text \<open>
  Claim C6 as stated fails: with no \<open>parameters\<close> field and the input \<open>{"a": 1}\<close> on top
  of the stack, the parameters document is not that input.
\<close>

theorem eval_parameters_absent_counterexample:
  "stack input_env = [JObj [(''a'', JNum 1)]] \<and>
   fst (eval_parameters push_template None None input_env) \<noteq> Inr (JObj [(''a'', JNum 1)])"
  by (simp add: eval_parameters_def input_env_def)

text \<open>
  Claim C6, amended: with no \<open>parameters\<close> field, \<open>_eval_parameters\<close> returns the empty
  dict, whatever the input on the stack and whatever the supported parameters, and leaves the
  environment as it was.
\<close>

theorem eval_parameters_absent:
  "eval_parameters parameters_eval supported_parameters None en = (Inr (JObj []), en)"
  by (simp add: eval_parameters_def split: option.splits)

section \<open>Properties of the role provider\<close>

lemma grows_refl: "grows P st st"
  by (simp add: grows_def)

lemma grows_append:
  "grows P st st' \<longleftrightarrow> (\<exists>cs. calls st' = calls st @ cs \<and> (\<forall>c\<in>set cs. P c))"
proof
  assume h: "grows P st st'"
  have "calls st' = take (length (calls st)) (calls st') @ drop (length (calls st)) (calls st')"
    by simp
  with h show "\<exists>cs. calls st' = calls st @ cs \<and> (\<forall>c\<in>set cs. P c)"
    unfolding grows_def list_all_iff by metis
next
  assume "\<exists>cs. calls st' = calls st @ cs \<and> (\<forall>c\<in>set cs. P c)"
  then show "grows P st st'"
    by (auto simp add: grows_def list_all_iff)
qed

lemma grows_trans: "grows P a b \<Longrightarrow> grows P b c \<Longrightarrow> grows P a c"
  unfolding grows_append by fastforce

lemma invoke_calls: "invoke D c st = (r, st') \<Longrightarrow> calls st' = calls st @ [c]"
  by (auto simp add: invoke_def split: prod.splits)

lemma call_safe_calls: "call_safe D c st = (r, st') \<Longrightarrow> calls st' = calls st @ [c]"
  by (auto simp add: call_safe_def split: prod.splits sum.splits failure.splits if_splits
      dest: invoke_calls)

lemma invoke_grows: "invoke D c st = (r, st') \<Longrightarrow> P c \<Longrightarrow> grows P st st'"
  by (auto simp add: grows_append dest: invoke_calls)

lemma call_safe_grows: "call_safe D c st = (r, st') \<Longrightarrow> P c \<Longrightarrow> grows P st st'"
  by (auto simp add: grows_append dest: call_safe_calls)

lemma detach_all_grows:
  "detach_all D rn as st = (r, st') \<Longrightarrow> grows (deletion_call rn) st st'"
proof (induction as arbitrary: st)
  case Nil
  then show ?case by (simp add: grows_refl)
next
  case (Cons a as)
  obtain r1 st1 where c: "call_safe D (DetachRolePolicy rn a) st = (r1, st1)"
    by (cases "call_safe D (DetachRolePolicy rn a) st")
  then have e: "grows (deletion_call rn) st st1" by (rule call_safe_grows) simp
  show ?case
  proof (cases r1)
    case None
    with Cons.prems c have "detach_all D rn as st1 = (r, st')" by simp
    then have "grows (deletion_call rn) st1 st'" by (rule Cons.IH)
    with e show ?thesis by (rule grows_trans)
  next
    case (Some f)
    with Cons.prems c have "st' = st1" by simp
    with e show ?thesis by simp
  qed
qed

lemma delete_inline_all_grows:
  "delete_inline_all D rn ps st = (r, st') \<Longrightarrow> grows (deletion_call rn) st st'"
proof (induction ps arbitrary: st)
  case Nil
  then show ?case by (simp add: grows_refl)
next
  case (Cons p ps)
  obtain r1 st1 where c: "call_safe D (DeleteRolePolicy rn p) st = (r1, st1)"
    by (cases "call_safe D (DeleteRolePolicy rn p) st")
  then have e: "grows (deletion_call rn) st st1" by (rule call_safe_grows) simp
  show ?case
  proof (cases r1)
    case None
    with Cons.prems c have "delete_inline_all D rn ps st1 = (r, st')" by simp
    then have "grows (deletion_call rn) st1 st'" by (rule Cons.IH)
    with e show ?thesis by (rule grows_trans)
  next
    case (Some f)
    with Cons.prems c have "st' = st1" by simp
    with e show ?thesis by simp
  qed
qed

lemma attach_all_grows:
  "attach_all D (Some nm) as st = (r, st') \<Longrightarrow> grows (creation_call nm) st st'"
proof (induction as arbitrary: st)
  case Nil
  then show ?case by (simp add: grows_refl)
next
  case (Cons a as)
  obtain r1 st1 where c: "invoke D (AttachRolePolicy (Some nm) a) st = (r1, st1)"
    by (cases "invoke D (AttachRolePolicy (Some nm) a) st")
  then have e: "grows (creation_call nm) st st1" by (rule invoke_grows) simp
  show ?case
  proof (cases r1)
    case (Inr v)
    with Cons.prems c have "attach_all D (Some nm) as st1 = (r, st')" by simp
    then have "grows (creation_call nm) st1 st'" by (rule Cons.IH)
    with e show ?thesis by (rule grows_trans)
  next
    case (Inl f)
    with Cons.prems c have "st' = st1" by simp
    with e show ?thesis by simp
  qed
qed

lemma put_all_grows:
  "put_all D (Some nm) ps st = (r, st') \<Longrightarrow> grows (creation_call nm) st st'"
proof (induction ps arbitrary: st)
  case Nil
  then show ?case by (simp add: grows_refl)
next
  case (Cons p ps)
  show ?case
  proof (cases "render_policy_document D p")
    case (Inl f)
    with Cons.prems have "st' = st" by simp
    then show ?thesis by (simp add: grows_refl)
  next
    case (Inr doc)
    obtain r1 st1 where
      c: "invoke D (PutRolePolicy (Some nm) (get_field (PolicyName p)) doc) st = (r1, st1)"
      by (cases "invoke D (PutRolePolicy (Some nm) (get_field (PolicyName p)) doc) st")
    then have e: "grows (creation_call nm) st st1" by (rule invoke_grows) simp
    show ?thesis
    proof (cases r1)
      case (Inr v)
      with Cons.prems c \<open>render_policy_document D p = Inr doc\<close>
      have "put_all D (Some nm) ps st1 = (r, st')" by simp
      then have "grows (creation_call nm) st1 st'" by (rule Cons.IH)
      with e show ?thesis by (rule grows_trans)
    next
      case (Inl f)
      with Cons.prems c \<open>render_policy_document D p = Inr doc\<close> have "st' = st1" by simp
      with e show ?thesis by simp
    qed
  qed
qed

lemma grows_calls: "grows P st st' \<Longrightarrow> \<exists>cs. calls st' = calls st @ cs"
  unfolding grows_append by blast

lemma invoke_list_grows:
  "invoke D (ListAttachedRolePolicies n) st = (r, st') \<Longrightarrow> grows (deletion_call n) st st'"
  "invoke D (ListRolePolicies n) st = (r, st') \<Longrightarrow> grows (deletion_call n) st st'"
  "invoke D (DeleteRole n) st = (r, st') \<Longrightarrow> grows (deletion_call n) st st'"
  by (erule invoke_grows, simp)+

lemma delete_grows:
  "delete D req st = (r, st')
     \<Longrightarrow> grows (deletion_call (get_field (RoleName (previous_state req)))) st st'"
  unfolding delete_def Let_def
  apply (auto split: field.splits prod.splits sum.splits option.splits
      intro: grows_refl
      dest!: invoke_list_grows detach_all_grows delete_inline_all_grows)
     apply (blast intro: grows_trans)+
  done

lemma delete_success_last:
  assumes "delete D req st = (Inr ev, st')"
  shows "\<exists>pre. calls st' = calls st @ pre @ [DeleteRole (get_field (RoleName (previous_state req)))]"
proof -
  from assms obtain st4 r where
    e: "grows (deletion_call (get_field (RoleName (previous_state req)))) st st4" and
    i: "invoke D (DeleteRole (get_field (RoleName (previous_state req)))) st4 = (r, st')"
    unfolding delete_def Let_def
    by (auto split: field.splits prod.splits sum.splits option.splits
        dest!: invoke_list_grows(1,2) detach_all_grows delete_inline_all_grows)
      (blast intro: grows_trans)+
  from e obtain pre where "calls st4 = calls st @ pre" by (blast dest: grows_calls)
  with invoke_calls [OF i] show ?thesis by simp
qed

lemma create_steps:
  assumes "create D req st = (r, st')"
  shows "(st' = st \<and> r = Inl (KeyError ''AssumeRolePolicyDocument'')) \<or>
         (\<exists>kw r1 st1. RoleName kw = Val (new_role_name D req) \<and>
            invoke D (CreateRole kw) st = (r1, st1) \<and>
            grows (creation_call (new_role_name D req)) st1 st')"
proof -
  let ?nm = "new_role_name D req"
  let ?gen = "generate_default_name D (stack_name req) (logical_resource_id req)"
  let ?model = "(case get_field (RoleName (desired_state req)) of
                     None \<Rightarrow> (desired_state req)\<lparr>RoleName := Val ?gen\<rparr>
                   | Some n \<Rightarrow> if n = [] then (desired_state req)\<lparr>RoleName := Val ?gen\<rparr>
                               else desired_state req)"
  have nm: "(case get_field (RoleName (desired_state req)) of
               None \<Rightarrow> ?gen | Some n \<Rightarrow> if n = [] then ?gen else n) = ?nm"
    by (cases "RoleName (desired_state req)") (simp_all add: new_role_name_def)
  have mn: "RoleName ?model = Val ?nm"
    by (cases "RoleName (desired_state req)") (simp_all add: new_role_name_def)
  show ?thesis
  proof (cases "AssumeRolePolicyDocument ?model = Absent")
    case True
    with assms show ?thesis by (simp add: create_def Let_def)
  next
    case False
    let ?kw = "?model\<lparr>ManagedPolicyArns := Absent, Policies := Absent,
        AssumeRolePolicyDocument := Val (DocStr (json_dumps D
          (case get_field (AssumeRolePolicyDocument ?model) of
             None \<Rightarrow> PNone | Some doc \<Rightarrow> doc_value doc)))\<rparr>"
    obtain r1 st1 where i: "invoke D (CreateRole ?kw) st = (r1, st1)"
      by (cases "invoke D (CreateRole ?kw) st")
    have k: "RoleName ?kw = Val ?nm" using mn by simp
    from assms False i nm have
      "st' = st1 \<or> (\<exists>as r2. attach_all D (Some ?nm) as st1 = (r2, st')) \<or>
       (\<exists>as ps r3 st2. attach_all D (Some ?nm) as st1 = (None, st2) \<and>
          (st' = st2 \<or> put_all D (Some ?nm) ps st2 = (r3, st')))"
      unfolding create_def Let_def
      by (auto split: field.splits prod.splits sum.splits option.splits iam_result.splits
          if_splits)
    then have "grows (creation_call ?nm) st1 st'"
      by (auto intro: grows_refl grows_trans dest: attach_all_grows put_all_grows)
    with i k show ?thesis by blast
  qed
qed

lemma create_grows:
  assumes "create D req st = (r, st')"
  shows "grows (creation_call (new_role_name D req)) st st'"
  using create_steps [OF assms]
proof
  assume "st' = st \<and> r = Inl (KeyError ''AssumeRolePolicyDocument'')"
  then show ?thesis by (simp add: grows_refl)
next
  assume "\<exists>kw r1 st1. RoleName kw = Val (new_role_name D req) \<and>
            invoke D (CreateRole kw) st = (r1, st1) \<and>
            grows (creation_call (new_role_name D req)) st1 st'"
  then obtain kw r1 st1 where k: "RoleName kw = Val (new_role_name D req)"
    and i: "invoke D (CreateRole kw) st = (r1, st1)"
    and g: "grows (creation_call (new_role_name D req)) st1 st'" by blast
  from k have "creation_call (new_role_name D req) (CreateRole kw)" by simp
  with i have "grows (creation_call (new_role_name D req)) st st1" by (rule invoke_grows)
  then show ?thesis using g by (rule grows_trans)
qed

lemma create_success_first:
  assumes "create D req st = (Inr ev, st')"
  shows "\<exists>kw post. calls st' = calls st @ CreateRole kw # post"
proof -
  from create_steps [OF assms] obtain kw r1 st1 where
    i: "invoke D (CreateRole kw) st = (r1, st1)" and
    g: "grows (creation_call (new_role_name D req)) st1 st'" by auto
  from g obtain post where "calls st' = calls st1 @ post" by (blast dest: grows_calls)
  with invoke_calls [OF i] show ?thesis by simp
qed

lemma delete_then_create_shape:
  assumes "delete_then_create D req st = (r, st')"
  shows "\<exists>pre post. calls st' = calls st @ pre @ post \<and>
           (\<forall>c\<in>set pre. deletion_call (get_field (RoleName (previous_state req))) c) \<and>
           (\<forall>c\<in>set post. creation_call (new_role_name D req) c) \<and>
           (post \<noteq> [] \<longrightarrow>
              pre \<noteq> [] \<and> last pre = DeleteRole (get_field (RoleName (previous_state req)))) \<and>
           (\<forall>ev. r = Inr ev \<longrightarrow> (\<exists>kw tl. post = CreateRole kw # tl))"
proof -
  let ?rn = "get_field (RoleName (previous_state req))"
  let ?nm = "new_role_name D req"
  obtain r1 st1 where d: "delete D req st = (r1, st1)" by (cases "delete D req st")
  from delete_grows [OF d] obtain pre where
    p: "calls st1 = calls st @ pre" and pa: "\<forall>c\<in>set pre. deletion_call ?rn c"
    unfolding grows_append by blast
  show ?thesis
  proof (cases r1)
    case (Inl f)
    with assms d have "st' = st1" and "r = Inl f" by (simp_all add: delete_then_create_def)
    with p pa have f: "calls st' = calls st @ pre @ [] \<and>
           (\<forall>c\<in>set pre. deletion_call ?rn c) \<and>
           (\<forall>c\<in>set []. creation_call ?nm c) \<and>
           ([] \<noteq> [] \<longrightarrow> pre \<noteq> [] \<and> last pre = DeleteRole ?rn) \<and>
           (\<forall>ev. r = Inr ev \<longrightarrow> (\<exists>kw tl. [] = CreateRole kw # tl))"
      by simp
    show ?thesis by (intro exI, rule f)
  next
    case (Inr deleted)
    with assms d have c: "create D req st1 = (r, st')" by (simp add: delete_then_create_def)
    from delete_success_last [of D req st deleted st1] d Inr obtain pre0 where
      "calls st1 = calls st @ pre0 @ [DeleteRole ?rn]" by blast
    with p have l: "pre = pre0 @ [DeleteRole ?rn]" by simp
    from create_grows [OF c] obtain post where
      q: "calls st' = calls st1 @ post" and qa: "\<forall>c\<in>set post. creation_call ?nm c"
      unfolding grows_append by blast
    have s: "\<forall>ev. r = Inr ev \<longrightarrow> (\<exists>kw tl. post = CreateRole kw # tl)"
    proof (intro allI impI)
      fix ev assume "r = Inr ev"
      with c have "create D req st1 = (Inr ev, st')" by simp
      from create_success_first [OF this] q show "\<exists>kw tl. post = CreateRole kw # tl" by simp
    qed
    from p q have "calls st' = calls st @ pre @ post" by simp
    with pa qa l s have f: "calls st' = calls st @ pre @ post \<and>
           (\<forall>c\<in>set pre. deletion_call ?rn c) \<and>
           (\<forall>c\<in>set post. creation_call ?nm c) \<and>
           (post \<noteq> [] \<longrightarrow> pre \<noteq> [] \<and> last pre = DeleteRole ?rn) \<and>
           (\<forall>ev. r = Inr ev \<longrightarrow> (\<exists>kw tl. post = CreateRole kw # tl))"
      by simp
    show ?thesis by (intro exI, rule f)
  qed
qed

lemma name_changed_readable:
  assumes "RoleName (previous_state req) \<noteq> Absent \<or>
           RoleName (desired_state req) \<in> {Absent, PyNone, Val []}"
  shows "\<exists>nc. name_changed req = Inr nc"
  using assms
  by (cases "RoleName (desired_state req)"; cases "RoleName (previous_state req)")
    (auto simp add: name_changed_def)

lemma update_shape:
  assumes "update D req st = (r, st')"
  shows "\<exists>pre post. calls st' = calls st @ pre @ post \<and>
           (\<forall>c\<in>set pre. deletion_call (get_field (RoleName (previous_state req))) c) \<and>
           (\<forall>c\<in>set post. creation_call (new_role_name D req) c) \<and>
           (post \<noteq> [] \<longrightarrow>
              pre \<noteq> [] \<and> last pre = DeleteRole (get_field (RoleName (previous_state req))))"
proof -
  let ?rn = "get_field (RoleName (previous_state req))"
  let ?nm = "new_role_name D req"
  have "st' = st \<or> delete_then_create D req st = (r, st')"
    using assms
    by (auto simp add: update_def delete_then_create_def split: sum.splits if_splits)
  then show ?thesis
  proof
    assume "st' = st"
    then have f: "calls st' = calls st @ [] @ [] \<and>
           (\<forall>c\<in>set []. deletion_call ?rn c) \<and>
           (\<forall>c\<in>set []. creation_call ?nm c) \<and>
           ([] \<noteq> [] \<longrightarrow> [] \<noteq> [] \<and> last [] = DeleteRole ?rn)"
      by simp
    show ?thesis by (intro exI, rule f)
  next
    assume "delete_then_create D req st = (r, st')"
    from delete_then_create_shape [OF this] obtain pre post where
      g: "calls st' = calls st @ pre @ post \<and>
           (\<forall>c\<in>set pre. deletion_call ?rn c) \<and>
           (\<forall>c\<in>set post. creation_call ?nm c) \<and>
           (post \<noteq> [] \<longrightarrow> pre \<noteq> [] \<and> last pre = DeleteRole ?rn) \<and>
           (\<forall>ev. r = Inr ev \<longrightarrow> (\<exists>kw tl. post = CreateRole kw # tl))"
      by (elim exE) (rule that)
    have f: "calls st' = calls st @ pre @ post \<and>
           (\<forall>c\<in>set pre. deletion_call ?rn c) \<and>
           (\<forall>c\<in>set post. creation_call ?nm c) \<and>
           (post \<noteq> [] \<longrightarrow> pre \<noteq> [] \<and> last pre = DeleteRole ?rn)"
      using g by (elim conjE) (intro conjI)
    show ?thesis by (intro exI, rule f)
  qed
qed

lemmas request_defs =
  renamed_request_def repoliced_request_def rearned_request_def unnamed_request_def
  created_state_def empty_model_def

lemmas run_defs =
  delete_then_create_def delete_def create_def invoke_def call_safe_def
  example_provider_def refusing_provider_def role_client_def refusing_client_def
  fresh_client_def deletion_of_stack_role_def Let_def

text \<open>
  Claim C10 as stated fails: the desired state gives no \<open>RoleName\<close> while the previous state
  has the generated one, so the two differ, yet \<open>update\<close> returns the previous state and
  makes no call.
\<close>

theorem update_unnamed_counterexample:
  "RoleName (desired_state unnamed_request) \<noteq> RoleName (previous_state unnamed_request) \<and>
   update example_provider unnamed_request fresh_client
     = (Inr \<lparr> status = SUCCESS, resource_model = previous_state unnamed_request \<rparr>, fresh_client)"
  by (simp add: update_def name_changed_def policy_changed_def managed_policy_arns_changed_def
      unnamed_request_def created_state_def empty_model_def doc_truthy_def)

text \<open>
  Claim C10, amended. \<open>update\<close> replaces the role, that is runs \<open>delete\<close> and then
  \<open>create\<close>, in three cases: the desired \<open>RoleName\<close> is a non-empty string and the
  previous state holds another name or \<open>None\<close>; the desired \<open>AssumeRolePolicyDocument\<close> is a
  non-empty string or dict and the previous state does not hold the same document; the
  \<open>ManagedPolicyArns\<close> of the two states differ, a missing key counting as the empty list.
  In the last two cases the previous state must hold a \<open>RoleName\<close> key when the desired
  name is non-empty. When none of the three cases holds, \<open>update\<close> returns success with
  the previous state and makes no call. A replacement makes deletion calls on the previous
  role name and then creation calls on the new role name: the creation calls begin only
  after \<open>delete_role\<close> of the previous name, and when the replacement returns normally they
  begin with \<open>create_role\<close>. For every request the calls of \<open>update\<close> have this shape, so
  it calls nothing on a role but what deletes the previous one and what sets up the new one.
\<close>

theorem update_replaces_or_keeps:
  "(RoleName (desired_state req) = Val n \<and> n \<noteq> [] \<and>
      RoleName (previous_state req) \<noteq> Absent \<and> RoleName (previous_state req) \<noteq> Val n \<longrightarrow>
      update D req st = delete_then_create D req st) \<and>
   ((RoleName (previous_state req) \<noteq> Absent \<or>
       RoleName (desired_state req) \<in> {Absent, PyNone, Val []}) \<and>
      AssumeRolePolicyDocument (desired_state req) = Val d \<and>
      d \<noteq> DocStr [] \<and> d \<noteq> DocDict fmempty \<and>
      AssumeRolePolicyDocument (previous_state req) \<noteq> Val d \<longrightarrow>
      update D req st = delete_then_create D req st) \<and>
   ((RoleName (previous_state req) \<noteq> Absent \<or>
       RoleName (desired_state req) \<in> {Absent, PyNone, Val []}) \<and>
      ManagedPolicyArns (desired_state req) \<noteq> ManagedPolicyArns (previous_state req) \<and>
      \<not> (ManagedPolicyArns (desired_state req) = Absent \<and>
           ManagedPolicyArns (previous_state req) = Val []) \<and>
      \<not> (ManagedPolicyArns (desired_state req) = Val [] \<and>
           ManagedPolicyArns (previous_state req) = Absent) \<longrightarrow>
      update D req st = delete_then_create D req st) \<and>
   ((RoleName (desired_state req) \<in> {Absent, PyNone, Val []} \<or>
       RoleName (desired_state req) = RoleName (previous_state req)) \<and>
      (AssumeRolePolicyDocument (desired_state req)
         \<in> {Absent, PyNone, Val (DocStr []), Val (DocDict fmempty)} \<or>
       AssumeRolePolicyDocument (desired_state req)
         = AssumeRolePolicyDocument (previous_state req)) \<and>
      (ManagedPolicyArns (desired_state req) = ManagedPolicyArns (previous_state req) \<or>
       ManagedPolicyArns (desired_state req) = Absent \<and>
         ManagedPolicyArns (previous_state req) = Val [] \<or>
       ManagedPolicyArns (desired_state req) = Val [] \<and>
         ManagedPolicyArns (previous_state req) = Absent) \<longrightarrow>
      update D req st
        = (Inr \<lparr> status = SUCCESS, resource_model = previous_state req \<rparr>, st)) \<and>
   (delete_then_create D req st = (r, st') \<longrightarrow>
      (\<exists>pre post. calls st' = calls st @ pre @ post \<and>
         (\<forall>c\<in>set pre. deletion_call (get_field (RoleName (previous_state req))) c) \<and>
         (\<forall>c\<in>set post. creation_call (new_role_name D req) c) \<and>
         (post \<noteq> [] \<longrightarrow>
            pre \<noteq> [] \<and> last pre = DeleteRole (get_field (RoleName (previous_state req)))) \<and>
         (\<forall>ev. r = Inr ev \<longrightarrow> (\<exists>kw tl. post = CreateRole kw # tl)))) \<and>
   (update D req st = (r, st') \<longrightarrow>
      (\<exists>pre post. calls st' = calls st @ pre @ post \<and>
         (\<forall>c\<in>set pre. deletion_call (get_field (RoleName (previous_state req))) c) \<and>
         (\<forall>c\<in>set post. creation_call (new_role_name D req) c) \<and>
         (post \<noteq> [] \<longrightarrow>
            pre \<noteq> [] \<and> last pre = DeleteRole (get_field (RoleName (previous_state req))))))"
proof (intro conjI impI)
  assume "RoleName (desired_state req) = Val n \<and> n \<noteq> [] \<and>
      RoleName (previous_state req) \<noteq> Absent \<and> RoleName (previous_state req) \<noteq> Val n"
  then have "name_changed req = Inr True"
    by (cases "RoleName (previous_state req)") (auto simp add: name_changed_def)
  then show "update D req st = delete_then_create D req st"
    by (simp add: update_def delete_then_create_def)
next
  assume h: "(RoleName (previous_state req) \<noteq> Absent \<or>
       RoleName (desired_state req) \<in> {Absent, PyNone, Val []}) \<and>
      AssumeRolePolicyDocument (desired_state req) = Val d \<and>
      d \<noteq> DocStr [] \<and> d \<noteq> DocDict fmempty \<and>
      AssumeRolePolicyDocument (previous_state req) \<noteq> Val d"
  then obtain nc where "name_changed req = Inr nc"
    using name_changed_readable [of req] by blast
  moreover from h have "policy_changed req"
    by (cases d; cases "AssumeRolePolicyDocument (previous_state req)")
      (auto simp add: policy_changed_def doc_truthy_def)
  ultimately show "update D req st = delete_then_create D req st"
    by (simp add: update_def delete_then_create_def)
next
  assume h: "(RoleName (previous_state req) \<noteq> Absent \<or>
       RoleName (desired_state req) \<in> {Absent, PyNone, Val []}) \<and>
      ManagedPolicyArns (desired_state req) \<noteq> ManagedPolicyArns (previous_state req) \<and>
      \<not> (ManagedPolicyArns (desired_state req) = Absent \<and>
           ManagedPolicyArns (previous_state req) = Val []) \<and>
      \<not> (ManagedPolicyArns (desired_state req) = Val [] \<and>
           ManagedPolicyArns (previous_state req) = Absent)"
  then obtain nc where "name_changed req = Inr nc"
    using name_changed_readable [of req] by blast
  moreover from h have "managed_policy_arns_changed req"
    by (cases "ManagedPolicyArns (desired_state req)";
        cases "ManagedPolicyArns (previous_state req)")
      (auto simp add: managed_policy_arns_changed_def)
  ultimately show "update D req st = delete_then_create D req st"
    by (simp add: update_def delete_then_create_def)
next
  assume h: "(RoleName (desired_state req) \<in> {Absent, PyNone, Val []} \<or>
       RoleName (desired_state req) = RoleName (previous_state req)) \<and>
      (AssumeRolePolicyDocument (desired_state req)
         \<in> {Absent, PyNone, Val (DocStr []), Val (DocDict fmempty)} \<or>
       AssumeRolePolicyDocument (desired_state req)
         = AssumeRolePolicyDocument (previous_state req)) \<and>
      (ManagedPolicyArns (desired_state req) = ManagedPolicyArns (previous_state req) \<or>
       ManagedPolicyArns (desired_state req) = Absent \<and>
         ManagedPolicyArns (previous_state req) = Val [] \<or>
       ManagedPolicyArns (desired_state req) = Val [] \<and>
         ManagedPolicyArns (previous_state req) = Absent)"
  then have "name_changed req = Inr False"
    by (cases "RoleName (desired_state req)"; cases "RoleName (previous_state req)")
      (auto simp add: name_changed_def)
  moreover from h have "\<not> policy_changed req"
    by (cases "AssumeRolePolicyDocument (desired_state req)";
        cases "AssumeRolePolicyDocument (previous_state req)")
      (auto simp add: policy_changed_def doc_truthy_def)
  moreover from h have "\<not> managed_policy_arns_changed req"
    by (cases "ManagedPolicyArns (desired_state req)";
        cases "ManagedPolicyArns (previous_state req)")
      (auto simp add: managed_policy_arns_changed_def)
  ultimately show "update D req st
        = (Inr \<lparr> status = SUCCESS, resource_model = previous_state req \<rparr>, st)"
    by (simp add: update_def)
next
  assume "delete_then_create D req st = (r, st')"
  then show "\<exists>pre post. calls st' = calls st @ pre @ post \<and>
         (\<forall>c\<in>set pre. deletion_call (get_field (RoleName (previous_state req))) c) \<and>
         (\<forall>c\<in>set post. creation_call (new_role_name D req) c) \<and>
         (post \<noteq> [] \<longrightarrow>
            pre \<noteq> [] \<and> last pre = DeleteRole (get_field (RoleName (previous_state req)))) \<and>
         (\<forall>ev. r = Inr ev \<longrightarrow> (\<exists>kw tl. post = CreateRole kw # tl))"
    by (rule delete_then_create_shape)
next
  assume "update D req st = (r, st')"
  then show "\<exists>pre post. calls st' = calls st @ pre @ post \<and>
         (\<forall>c\<in>set pre. deletion_call (get_field (RoleName (previous_state req))) c) \<and>
         (\<forall>c\<in>set post. creation_call (new_role_name D req) c) \<and>
         (post \<noteq> [] \<longrightarrow>
            pre \<noteq> [] \<and> last pre = DeleteRole (get_field (RoleName (previous_state req))))"
    by (rule update_shape)
qed

theorem update_replaces_or_keeps_witness:
  "RoleName (desired_state renamed_request) = Val ''new-role'' \<and>
   RoleName (previous_state renamed_request) = Val ''stack-Role'' \<and>
   update example_provider renamed_request fresh_client
     = delete_then_create example_provider renamed_request fresh_client \<and>
   calls (snd (delete_then_create example_provider renamed_request fresh_client))
     = deletion_of_stack_role
       @ [CreateRole (empty_model\<lparr> AssumeRolePolicyDocument := Val (DocStr ''trust''),
                                   RoleName := Val ''new-role'' \<rparr>)] \<and>
   AssumeRolePolicyDocument (desired_state repoliced_request) = Val (DocStr ''trust-v2'') \<and>
   AssumeRolePolicyDocument (previous_state repoliced_request) = Val (DocStr ''trust'') \<and>
   RoleName (desired_state repoliced_request) = Absent \<and>
   update example_provider repoliced_request fresh_client
     = delete_then_create example_provider repoliced_request fresh_client \<and>
   calls (snd (delete_then_create example_provider repoliced_request fresh_client))
     = deletion_of_stack_role
       @ [CreateRole (empty_model\<lparr> AssumeRolePolicyDocument := Val (DocStr ''trust-v2''),
                                   RoleName := Val ''stack-Role'' \<rparr>)] \<and>
   ManagedPolicyArns (desired_state rearned_request)
     = Val [''arn:aws:iam::aws:policy/ReadOnly''] \<and>
   ManagedPolicyArns (previous_state rearned_request) = Absent \<and>
   update example_provider rearned_request fresh_client
     = delete_then_create example_provider rearned_request fresh_client \<and>
   calls (snd (delete_then_create example_provider rearned_request fresh_client))
     = deletion_of_stack_role
       @ [CreateRole (empty_model\<lparr> AssumeRolePolicyDocument := Val (DocStr ''trust''),
                                   RoleName := Val ''stack-Role'' \<rparr>),
          AttachRolePolicy (Some ''stack-Role'') ''arn:aws:iam::aws:policy/ReadOnly''] \<and>
   update example_provider unnamed_request fresh_client
     = (Inr \<lparr> status = SUCCESS, resource_model = created_state \<rparr>, fresh_client) \<and>
   update refusing_provider renamed_request fresh_client
     = (Inl (Raised delete_conflict), \<lparr> client = 5, calls = deletion_of_stack_role \<rparr>) \<and>
   (\<exists>pre post.
      calls (snd (delete_then_create refusing_provider renamed_request fresh_client))
        = calls fresh_client @ pre @ post \<and>
      (\<forall>c\<in>set pre. deletion_call (Some ''stack-Role'') c) \<and>
      (\<forall>c\<in>set post. creation_call ''new-role'' c) \<and>
      (post \<noteq> [] \<longrightarrow> pre \<noteq> [] \<and> last pre = DeleteRole (Some ''stack-Role'')) \<and>
      (\<forall>ev. fst (delete_then_create refusing_provider renamed_request fresh_client) = Inr ev
         \<longrightarrow> (\<exists>kw tl. post = CreateRole kw # tl))) \<and>
   (\<exists>pre post.
      calls (snd (update example_provider rearned_request fresh_client))
        = calls fresh_client @ pre @ post \<and>
      (\<forall>c\<in>set pre. deletion_call (Some ''stack-Role'') c) \<and>
      (\<forall>c\<in>set post. creation_call ''stack-Role'' c) \<and>
      (post \<noteq> [] \<longrightarrow> pre \<noteq> [] \<and> last pre = DeleteRole (Some ''stack-Role'')))"
proof -
  note T = update_replaces_or_keeps
  have n1: "RoleName (desired_state renamed_request) = Val ''new-role''"
    and n2: "RoleName (previous_state renamed_request) = Val ''stack-Role''"
    by (simp_all add: request_defs)
  have u1: "update example_provider renamed_request fresh_client
     = delete_then_create example_provider renamed_request fresh_client"
    using T [where req = renamed_request and n = "''new-role''" and D = example_provider
        and st = fresh_client, THEN conjunct1] n1 n2
    by simp
  have c1: "calls (snd (delete_then_create example_provider renamed_request fresh_client))
     = deletion_of_stack_role
       @ [CreateRole (empty_model\<lparr> AssumeRolePolicyDocument := Val (DocStr ''trust''),
                                   RoleName := Val ''new-role'' \<rparr>)]"
    by (simp add: run_defs request_defs)
  have p1: "AssumeRolePolicyDocument (desired_state repoliced_request) = Val (DocStr ''trust-v2'')"
    and p2: "AssumeRolePolicyDocument (previous_state repoliced_request) = Val (DocStr ''trust'')"
    and p3: "RoleName (desired_state repoliced_request) = Absent"
    by (simp_all add: request_defs)
  have u2: "update example_provider repoliced_request fresh_client
     = delete_then_create example_provider repoliced_request fresh_client"
    using T [where req = repoliced_request and d = "DocStr ''trust-v2''"
        and D = example_provider and st = fresh_client, THEN conjunct2, THEN conjunct1]
      p1 p2 p3
    by simp
  have c2: "calls (snd (delete_then_create example_provider repoliced_request fresh_client))
     = deletion_of_stack_role
       @ [CreateRole (empty_model\<lparr> AssumeRolePolicyDocument := Val (DocStr ''trust-v2''),
                                   RoleName := Val ''stack-Role'' \<rparr>)]"
    by (simp add: run_defs request_defs)
  have a1: "ManagedPolicyArns (desired_state rearned_request)
     = Val [''arn:aws:iam::aws:policy/ReadOnly'']"
    and a2: "ManagedPolicyArns (previous_state rearned_request) = Absent"
    and a3: "RoleName (desired_state rearned_request) = Absent"
    by (simp_all add: request_defs)
  have u3: "update example_provider rearned_request fresh_client
     = delete_then_create example_provider rearned_request fresh_client"
    using T [where req = rearned_request and D = example_provider and st = fresh_client,
        THEN conjunct2, THEN conjunct2, THEN conjunct1] a1 a2 a3
    by simp
  have c3: "calls (snd (delete_then_create example_provider rearned_request fresh_client))
     = deletion_of_stack_role
       @ [CreateRole (empty_model\<lparr> AssumeRolePolicyDocument := Val (DocStr ''trust''),
                                   RoleName := Val ''stack-Role'' \<rparr>),
          AttachRolePolicy (Some ''stack-Role'') ''arn:aws:iam::aws:policy/ReadOnly'']"
    by (simp add: run_defs request_defs)
  have k: "RoleName (desired_state unnamed_request) = Absent"
    "AssumeRolePolicyDocument (desired_state unnamed_request)
       = AssumeRolePolicyDocument (previous_state unnamed_request)"
    "ManagedPolicyArns (desired_state unnamed_request)
       = ManagedPolicyArns (previous_state unnamed_request)"
    "previous_state unnamed_request = created_state"
    by (simp_all add: request_defs)
  have u4: "update example_provider unnamed_request fresh_client
     = (Inr \<lparr> status = SUCCESS, resource_model = created_state \<rparr>, fresh_client)"
    using T [where req = unnamed_request and D = example_provider and st = fresh_client,
        THEN conjunct2, THEN conjunct2, THEN conjunct2, THEN conjunct1] k
    by simp
  have u5: "update refusing_provider renamed_request fresh_client
     = delete_then_create refusing_provider renamed_request fresh_client"
    using T [where req = renamed_request and n = "''new-role''" and D = refusing_provider
        and st = fresh_client, THEN conjunct1] n1 n2
    by simp
  have c5: "delete_then_create refusing_provider renamed_request fresh_client
     = (Inl (Raised delete_conflict), \<lparr> client = 5, calls = deletion_of_stack_role \<rparr>)"
    by (simp add: run_defs request_defs eval_nat_numeral)
  have nm: "new_role_name refusing_provider renamed_request = ''new-role''"
    by (simp add: new_role_name_def request_defs)
  have s: "\<exists>pre post.
      calls (snd (delete_then_create refusing_provider renamed_request fresh_client))
        = calls fresh_client @ pre @ post \<and>
      (\<forall>c\<in>set pre. deletion_call (get_field (RoleName (previous_state renamed_request))) c) \<and>
      (\<forall>c\<in>set post. creation_call (new_role_name refusing_provider renamed_request) c) \<and>
      (post \<noteq> [] \<longrightarrow> pre \<noteq> [] \<and>
         last pre = DeleteRole (get_field (RoleName (previous_state renamed_request)))) \<and>
      (\<forall>ev. fst (delete_then_create refusing_provider renamed_request fresh_client) = Inr ev
         \<longrightarrow> (\<exists>kw tl. post = CreateRole kw # tl))"
    using T [where req = renamed_request and D = refusing_provider and st = fresh_client
        and r = "fst (delete_then_create refusing_provider renamed_request fresh_client)"
        and st' = "snd (delete_then_create refusing_provider renamed_request fresh_client)",
        THEN conjunct2, THEN conjunct2, THEN conjunct2, THEN conjunct2, THEN conjunct1]
    by simp
  have s': "\<exists>pre post.
      calls (snd (delete_then_create refusing_provider renamed_request fresh_client))
        = calls fresh_client @ pre @ post \<and>
      (\<forall>c\<in>set pre. deletion_call (Some ''stack-Role'') c) \<and>
      (\<forall>c\<in>set post. creation_call ''new-role'' c) \<and>
      (post \<noteq> [] \<longrightarrow> pre \<noteq> [] \<and> last pre = DeleteRole (Some ''stack-Role'')) \<and>
      (\<forall>ev. fst (delete_then_create refusing_provider renamed_request fresh_client) = Inr ev
         \<longrightarrow> (\<exists>kw tl. post = CreateRole kw # tl))"
    using s unfolding nm n2 get_field.simps .
  have nm3: "new_role_name example_provider rearned_request = ''stack-Role''"
    and n3: "RoleName (previous_state rearned_request) = Val ''stack-Role''"
    by (simp_all add: new_role_name_def request_defs example_provider_def)
  have t: "\<exists>pre post.
      calls (snd (update example_provider rearned_request fresh_client))
        = calls fresh_client @ pre @ post \<and>
      (\<forall>c\<in>set pre. deletion_call (get_field (RoleName (previous_state rearned_request))) c) \<and>
      (\<forall>c\<in>set post. creation_call (new_role_name example_provider rearned_request) c) \<and>
      (post \<noteq> [] \<longrightarrow> pre \<noteq> [] \<and>
         last pre = DeleteRole (get_field (RoleName (previous_state rearned_request))))"
    using T [where req = rearned_request and D = example_provider and st = fresh_client
        and r = "fst (update example_provider rearned_request fresh_client)"
        and st' = "snd (update example_provider rearned_request fresh_client)",
        THEN conjunct2, THEN conjunct2, THEN conjunct2, THEN conjunct2, THEN conjunct2]
    by simp
  have t': "\<exists>pre post.
      calls (snd (update example_provider rearned_request fresh_client))
        = calls fresh_client @ pre @ post \<and>
      (\<forall>c\<in>set pre. deletion_call (Some ''stack-Role'') c) \<and>
      (\<forall>c\<in>set post. creation_call ''stack-Role'' c) \<and>
      (post \<noteq> [] \<longrightarrow> pre \<noteq> [] \<and> last pre = DeleteRole (Some ''stack-Role''))"
    using t unfolding nm3 n3 get_field.simps .
  from n1 n2 u1 c1 p1 p2 p3 u2 c2 a1 a2 u3 c3 u4 u5 c5 s' t' show ?thesis
    by (simp only: simp_thms)
qed

end
